theory Spec2Isabelle
  imports Complex_Main "HOL-Library.AList" "HOL-Library.Sublist"
begin

section \<open>Financial ratios: the query-parameter schema\<close>


definition is_lower :: "char \<Rightarrow> bool" where
  "is_lower c = (97 \<le> (of_char c :: nat) \<and> (of_char c :: nat) \<le> 122)"










section \<open>The charting backend: data\<close>

text \<open>
  \<^verbatim>\<open>backend.py\<close> defines the class \<^verbatim>\<open>Backend(PyWry)\<close>, a process-wide singleton that
  assembles render requests and queues them for the external renderer. Exceptions are
  values of \<open>error\<close>; a method that can raise returns \<open>error + 'a\<close> together with
  the state it leaves behind, because a raise does not undo the assignments before it.
\<close>

datatype error =
    FileNotFoundError
  | AttributeError
  | ValueError string
  | KeyError string
  | CalledProcessError
  | RendererError string

type_synonym path = string

text \<open>
  A version as \<^verbatim>\<open>packaging.version.parse\<close> reads a plain release string such as
  \<^verbatim>\<open>0.5.12\<close>: the release numbers. Two versions compare as the tuples of their release
  numbers with the trailing zeros removed. Pre-release, post-release and local segments
  do not occur in the versions the renderer reports and are not modelled.
\<close>

type_synonym pyversion = "nat list"

definition strip_trailing_zeros :: "pyversion \<Rightarrow> pyversion" where
  "strip_trailing_zeros r = rev (dropWhile (\<lambda>x. x = 0) (rev r))"

fun tuple_lt :: "nat list \<Rightarrow> nat list \<Rightarrow> bool" where
  "tuple_lt [] [] = False"
| "tuple_lt [] (y # ys) = True"
| "tuple_lt (x # xs) [] = False"
| "tuple_lt (x # xs) (y # ys) = (x < y \<or> (x = y \<and> tuple_lt xs ys))"

definition version_lt :: "pyversion \<Rightarrow> pyversion \<Rightarrow> bool" where
  "version_lt a b = tuple_lt (strip_trailing_zeros a) (strip_trailing_zeros b)"

definition version_ge :: "pyversion \<Rightarrow> pyversion \<Rightarrow> bool" where
  "version_ge a b = (\<not> version_lt a b)"

text \<open>The settings object the backend reads (\<^verbatim>\<open>ChartingSettings\<close>), by the attributes used.\<close>

record ChartingSettings =
  plot_pywry_width :: "int option"
  plot_pywry_height :: "int option"
  log_collect :: bool
  user_uuid :: "string option"
  user_email :: "string option"
  chart_style :: string
  app_id :: string
  version :: string
  python_version :: string
  plot_open_export :: bool
  user_exports_directory :: string

text \<open>
  JSON values. A Python dict is an association list in insertion order;
  \<^verbatim>\<open>d[k] = v\<close> and \<^verbatim>\<open>d.update(...)\<close> replace the value of a key in place or append the
  key, which is \<^const>\<open>AList.update\<close>.
\<close>

datatype json =
    JNull
  | JBool bool
  | JInt int
  | JStr string
  | JArr "json list"
  | JObj "(string \<times> json) list"

type_synonym pydict = "(string \<times> json) list"

definition dict_update :: "pydict \<Rightarrow> pydict \<Rightarrow> pydict" where
  "dict_update d kvs = fold (\<lambda>kv acc. AList.update (fst kv) (snd kv) acc) kvs d"

definition opt_str :: "string option \<Rightarrow> json" where
  "opt_str v = (case v of None \<Rightarrow> JNull | Some s \<Rightarrow> JStr s)"

text \<open>Truthiness of an optional string and of an optional integer.\<close>

definition truthy :: "string option \<Rightarrow> bool" where
  "truthy v = (case v of None \<Rightarrow> False | Some s \<Rightarrow> s \<noteq> [])"

definition truthy_int :: "int option \<Rightarrow> bool" where
  "truthy_int v = (case v of None \<Rightarrow> False | Some n \<Rightarrow> n \<noteq> 0)"

text \<open>
  A Plotly figure, by what \<^verbatim>\<open>send_figure\<close> touches: \<^verbatim>\<open>fig.layout.title.text\<close>,
  \<^verbatim>\<open>fig.layout.height\<close> (a number, as \<^verbatim>\<open>+=\<close> needs), and the rest of the figure, which
  is carried through \<^verbatim>\<open>to_json\<close> unchanged.
\<close>

record figure =
  fig_data :: json
  layout_title_text :: "string option"
  layout_height :: int
  layout_other :: pydict

definition fig_to_json :: "figure \<Rightarrow> pydict" where
  "fig_to_json fig =
     [(''data'', fig_data fig),
      (''layout'',
         JObj ([(''title'', JObj [(''text'', opt_str (layout_title_text fig))]),
                (''height'', JInt (layout_height fig))] @ layout_other fig))]"

text \<open>
  A data frame, by what \<^verbatim>\<open>send_table\<close> reads. For each label of
  \<^verbatim>\<open>df_table.columns\<close> the selection \<^verbatim>\<open>df_table[col]\<close> is a series with a name and a
  dtype, or (for a repeated label) an object without them, which the comprehension
  skips. A series is given by \<^verbatim>\<open>str(name)\<close> and its values after \<^verbatim>\<open>astype(str)\<close>.
  \<^verbatim>\<open>to_json(orient="split", date_format="iso")\<close> is the library's serialisation and is
  carried as data.
\<close>

datatype selection = Series string "string list" | NoSeries

record dataframe =
  selections :: "selection list"
  split_json :: pydict

text \<open>
  An outgoing message is a dict whose values are paths, strings, integers, \<^verbatim>\<open>None\<close>,
  a JSON object, or the text \<^verbatim>\<open>json.dumps\<close> makes of one.
\<close>

datatype pyval =
    PNone
  | PStr string
  | PInt int
  | PPath path
  | PDict pydict
  | PDumps pydict

type_synonym message = "(string \<times> pyval) list"

text \<open>
  What a method does to its surroundings, in order: warnings issued, calls of the
  renderer's own health probe (directly, or under \<^verbatim>\<open>loop.run_until_complete\<close>), files
  opened after an export, and sleeps of the export watcher.
\<close>

datatype event =
    Warn string
  | ProbeDirect
  | ProbeBlocking
  | Startfile path
  | CheckCall string path
  | Sleep

text \<open>
  The object \<^verbatim>\<open>self\<close>. \<^verbatim>\<open>max_retries\<close>, \<^verbatim>\<open>outgoing\<close> and \<^verbatim>\<open>init_engine\<close> are
  attributes of the base class \<^verbatim>\<open>PyWry\<close>; \<^verbatim>\<open>daemon\<close> and \<^verbatim>\<open>proc_name\<close> record the
  keyword arguments handed to its constructor.
\<close>

record backend =
  charting_settings :: ChartingSettings
  plotly_html :: path
  table_html :: path
  isatty :: bool
  WIDTH :: int
  HEIGHT :: int
  logged_in :: bool
  max_retries :: int
  outgoing :: "message list"
  init_engine :: "message list"
  daemon :: bool
  proc_name :: "string option"

text \<open>
  The interpreter state a method call works on: the receiver, the class attribute
  \<^verbatim>\<open>PyWry.__version__\<close> (absent when \<^verbatim>\<open>hasattr\<close> is false), and the trace of effects.
\<close>

record pystate =
  self :: backend
  PyWry_version :: "pyversion option"
  trace :: "event list"

text \<open>
  What surrounds a call and is only read: the directory of the module, the files that
  exist, the version the \<^verbatim>\<open>pywry\<close> module exports (\<open>None\<close> when the import fails), the
  outcome of the renderer's own \<^verbatim>\<open>check_backend\<close>, \<^verbatim>\<open>sys.platform\<close>, whether the
  export file exists after a given number of sleeps, and whether the opener command
  exits with status zero; for the constructor, the module constant
  \<^verbatim>\<open>JUPYTER_NOTEBOOK\<close>, \<^verbatim>\<open>sys.stdin.isatty()\<close>, \<^verbatim>\<open>current_process().name\<close>, and the
  settings \<^verbatim>\<open>ChartingSettings()\<close> builds without arguments.
\<close>

record env =
  PLOTS_CORE_PATH :: path
  path_exists :: "path \<Rightarrow> bool"
  pywry_module_version :: "pyversion option"
  super_check_backend :: "error + string"
  sys_platform :: string
  export_exists :: "path \<Rightarrow> nat \<Rightarrow> bool"
  opener_succeeds :: bool
  JUPYTER_NOTEBOOK :: bool
  stdin_isatty :: bool
  process_name :: string
  default_settings :: ChartingSettings

section \<open>The charting backend: text helpers\<close>

text \<open>
  \<^verbatim>\<open>re.sub(r"<[^>]*>", "", s)\<close>: scanning from the left, a \<^verbatim>\<open><\<close> that has a \<^verbatim>\<open>>\<close>
  somewhere after it starts a match that ends at the first such \<^verbatim>\<open>>\<close>; the match is
  removed and the scan goes on behind it. Any other character is kept.
\<close>

function strip_tags :: "string \<Rightarrow> string" where
  "strip_tags [] = []"
| "strip_tags (c # cs) =
     (if c = CHR ''<'' \<and> CHR ''>'' \<in> set cs
      then strip_tags (tl (dropWhile (\<lambda>x. x \<noteq> CHR ''>'') cs))
      else c # strip_tags cs)"
  by pat_completeness auto
termination
proof (relation "measure length")
  show "wf (measure length)" by simp
next
  fix c :: char and cs :: string
  have "length (tl (dropWhile (\<lambda>x. x \<noteq> CHR ''>'') cs)) \<le> length cs"
    using length_dropWhile_le [of "\<lambda>x. x \<noteq> CHR ''>''" cs] by simp
  then show "(tl (dropWhile (\<lambda>x. x \<noteq> CHR ''>'') cs), c # cs) \<in> measure length"
    by simp
next
  fix c :: char and cs :: string
  show "(cs, c # cs) \<in> measure length" by simp
qed


text \<open>
  \<^verbatim>\<open>re.sub(r"\[\/?[a-z]+\]", "", s)\<close>: behind a \<^verbatim>\<open>[\<close>, an optional \<^verbatim>\<open>/\<close>, one or more
  letters \<^verbatim>\<open>a\<close> to \<^verbatim>\<open>z\<close> and a \<^verbatim>\<open>]\<close>. \<open>bracket_tag\<close> gives what follows the tag when one
  starts right behind the \<^verbatim>\<open>[\<close>.
\<close>

definition bracket_tag :: "string \<Rightarrow> string option" where
  "bracket_tag cs =
     (let cs1 = (case cs of [] \<Rightarrow> [] | c # r \<Rightarrow> if c = CHR ''/'' then r else cs);
          rest = dropWhile is_lower cs1
      in case rest of
           [] \<Rightarrow> None
         | d # after \<Rightarrow>
             if takeWhile is_lower cs1 \<noteq> [] \<and> d = CHR '']'' then Some after else None)"

function strip_brackets :: "string \<Rightarrow> string" where
  "strip_brackets [] = []"
| "strip_brackets (c # cs) =
     (if c = CHR ''['' \<and> bracket_tag cs \<noteq> None
      then strip_brackets (the (bracket_tag cs))
      else c # strip_brackets cs)"
  by pat_completeness auto
termination
proof (relation "measure length")
  show "wf (measure length)" by simp
next
  fix c :: char and cs :: string
  assume a: "c = CHR ''['' \<and> bracket_tag cs \<noteq> None"
  then obtain r where r: "bracket_tag cs = Some r" by auto
  define cs1 where "cs1 = (case cs of [] \<Rightarrow> [] | c # r \<Rightarrow> if c = CHR ''/'' then r else cs)"
  have l1: "length cs1 \<le> length cs"
    by (cases cs) (simp_all add: cs1_def)
  have "\<exists>d. dropWhile is_lower cs1 = d # r"
    using r unfolding bracket_tag_def cs1_def [symmetric]
    by (simp add: Let_def split: list.splits if_splits)
  then obtain d where d: "dropWhile is_lower cs1 = d # r" by blast
  have "length (dropWhile is_lower cs1) \<le> length cs1"
    by (rule length_dropWhile_le)
  with d l1 have "length r < length (c # cs)" by simp
  with r show "(the (bracket_tag cs), c # cs) \<in> measure length" by simp
next
  fix c :: char and cs :: string
  show "(cs, c # cs) \<in> measure length" by simp
qed

text \<open>A release number in decimal, and a version as the text \<^verbatim>\<open>__version__\<close> holds.\<close>

fun decimal :: "nat \<Rightarrow> string" where
  "decimal n =
     (if n < 10 then [char_of (48 + n)] else decimal (n div 10) @ [char_of (48 + n mod 10)])"

fun join_dots :: "string list \<Rightarrow> string" where
  "join_dots [] = []"
| "join_dots [x] = x"
| "join_dots (x # y # ys) = x @ ''.'' @ join_dots (y # ys)"

definition version_text :: "pyversion \<Rightarrow> string" where
  "version_text v = join_dots (map decimal v)"

section \<open>The charting backend: double-precision arithmetic of the table width\<close>

text \<open>
  \<^verbatim>\<open>send_table\<close> multiplies integers by the float literals \<^verbatim>\<open>0.2\<close> and \<^verbatim>\<open>9.7\<close>. A
  non-negative finite double is a pair \<open>(m, e)\<close> that stands for \<open>m * 2 ^ e\<close>. An
  operation computes the exact result and rounds it to 53 significant bits, to nearest
  with ties to even, as IEEE 754 binary64 does. The numbers here are lengths of strings
  and their sums, so the exponent range of binary64 is never left and is not modelled.
\<close>

type_synonym dbl = "nat \<times> int"

fun bits :: "nat \<Rightarrow> nat" where
  "bits n = (if n = 0 then 0 else Suc (bits (n div 2)))"

definition round53 :: "nat \<Rightarrow> int \<Rightarrow> dbl" where
  "round53 m e =
     (if bits m \<le> 53 then (m, e)
      else let s = bits m - 53;
               q = m div 2 ^ s;
               r = m mod 2 ^ s;
               h = 2 ^ (s - 1)
           in ((if h < r \<or> (r = h \<and> odd q) then q + 1 else q), e + int s))"

text \<open>\<^verbatim>\<open>float(n)\<close> for a non-negative integer, the product and the sum of two doubles.\<close>

definition dbl_of_nat :: "nat \<Rightarrow> dbl" where
  "dbl_of_nat n = round53 n 0"

definition dbl_mul :: "dbl \<Rightarrow> dbl \<Rightarrow> dbl" where
  "dbl_mul a b = round53 (fst a * fst b) (snd a + snd b)"

definition dbl_add :: "dbl \<Rightarrow> dbl \<Rightarrow> dbl" where
  "dbl_add a b =
     (let e = min (snd a) (snd b)
      in round53 (fst a * 2 ^ nat (snd a - e) + fst b * 2 ^ nat (snd b - e)) e)"

text \<open>\<^verbatim>\<open>int(x)\<close> of a non-negative double: the integer part.\<close>

definition dbl_trunc :: "dbl \<Rightarrow> nat" where
  "dbl_trunc a = (if 0 \<le> snd a then fst a * 2 ^ nat (snd a) else fst a div 2 ^ nat (- snd a))"

text \<open>\<^verbatim>\<open>z < x\<close> for an integer \<open>z\<close> and a non-negative double \<open>x\<close>; Python compares exactly.\<close>

definition int_lt_dbl :: "int \<Rightarrow> dbl \<Rightarrow> bool" where
  "int_lt_dbl z a =
     (if 0 \<le> snd a then z < int (fst a) * 2 ^ nat (snd a)
      else z * 2 ^ nat (- snd a) < int (fst a))"

text \<open>
  The literals: \<^verbatim>\<open>0.2\<close> is \<open>3602879701896397 / 2 ^ 54\<close> and \<^verbatim>\<open>9.7\<close> is
  \<open>2730307274093363 / 2 ^ 48\<close> (\<^verbatim>\<open>0x1.999999999999ap-3\<close> and \<^verbatim>\<open>0x1.3666666666666p+3\<close>).
\<close>

definition dbl_0_2 :: dbl where
  "dbl_0_2 = (3602879701896397, - 54)"

definition dbl_9_7 :: dbl where
  "dbl_9_7 = (2730307274093363, - 48)"

section \<open>The charting backend: methods\<close>

text \<open>\<^verbatim>\<open>x or d\<close> for an optional integer and for an optional string.\<close>

definition or_int :: "int option \<Rightarrow> int \<Rightarrow> int" where
  "or_int v d = (case v of None \<Rightarrow> d | Some n \<Rightarrow> if n \<noteq> 0 then n else d)"

definition or_str :: "string option \<Rightarrow> string \<Rightarrow> string" where
  "or_str v d = (case v of None \<Rightarrow> d | Some t \<Rightarrow> if t \<noteq> [] then t else d)"

text \<open>\<^verbatim>\<open>set_window_dimensions\<close>: width and height from the settings, 1400 and 762 by default.\<close>

definition set_window_dimensions :: "pystate \<Rightarrow> pystate" where
  "set_window_dimensions s =
     (let width = or_int (plot_pywry_width (charting_settings (self s))) 1400;
          height = or_int (plot_pywry_height (charting_settings (self s))) 762
      in s\<lparr>self := (self s)\<lparr>WIDTH := width, HEIGHT := height\<rparr>\<rparr>)"

text \<open>\<^verbatim>\<open>get_pending\<close>: the queued messages, and both queues emptied.\<close>

definition get_pending :: "pystate \<Rightarrow> message list \<times> pystate" where
  "get_pending s =
     (outgoing (self s) @ init_engine (self s),
      s\<lparr>self := (self s)\<lparr>outgoing := [], init_engine := []\<rparr>\<rparr>)"

definition warn :: "string \<Rightarrow> pystate \<Rightarrow> pystate" where
  "warn msg s = s\<lparr>trace := trace s @ [Warn msg]\<rparr>"

definition set_max_retries :: "int \<Rightarrow> pystate \<Rightarrow> pystate" where
  "set_max_retries n s = s\<lparr>self := (self s)\<lparr>max_retries := n\<rparr>\<rparr>"

definition not_found_message :: "string \<Rightarrow> env \<Rightarrow> string" where
  "not_found_message name e =
     ''[bold red]'' @ name @ '' file not found, check the path:[/][green]''
       @ PLOTS_CORE_PATH e @ ''/'' @ name @ ''[/]''"

text \<open>
  \<^verbatim>\<open>get_plotly_html\<close> and \<^verbatim>\<open>get_table_html\<close>: set the window dimensions; return the
  template when the file exists; otherwise warn, set \<^verbatim>\<open>max_retries\<close> to 0 and raise
  \<^verbatim>\<open>FileNotFoundError\<close>.
\<close>

definition get_plotly_html :: "env \<Rightarrow> pystate \<Rightarrow> (error + path) \<times> pystate" where
  "get_plotly_html e s =
     (let s1 = set_window_dimensions s
      in if path_exists e (plotly_html (self s1)) then (Inr (plotly_html (self s1)), s1)
         else (Inl FileNotFoundError,
               set_max_retries 0 (warn (not_found_message ''plotly.html'' e) s1)))"

definition get_table_html :: "env \<Rightarrow> pystate \<Rightarrow> (error + path) \<times> pystate" where
  "get_table_html e s =
     (let s1 = set_window_dimensions s
      in if path_exists e (table_html (self s1)) then (Inr (table_html (self s1)), s1)
         else (Inl FileNotFoundError,
               set_max_retries 0 (warn (not_found_message ''table.html'' e) s1)))"

text \<open>
  \<^verbatim>\<open>get_window_icon\<close>: the path of the icon when the file exists, \<^verbatim>\<open>None\<close> otherwise.
  It assigns nothing; the state is returned as it came, so that the three asset
  lookups have one shape.
\<close>

definition get_window_icon :: "env \<Rightarrow> pystate \<Rightarrow> (error + path option) \<times> pystate" where
  "get_window_icon e s =
     (let icon_path = PLOTS_CORE_PATH e @ ''/assets/Terminal_icon.png''
      in if path_exists e icon_path then (Inr (Some icon_path), s) else (Inr None, s))"

text \<open>
  \<^verbatim>\<open>get_json_update\<close>: the telemetry record \<^verbatim>\<open>posthog\<close> always holds \<^verbatim>\<open>collect_logs\<close>;
  \<^verbatim>\<open>user_id\<close> and \<^verbatim>\<open>email\<close> are added, and \<^verbatim>\<open>logged_in\<close> is set, when logs are
  collected, the user has a uuid and \<^verbatim>\<open>logged_in\<close> is still false. The returned dict
  reads \<^verbatim>\<open>self.__version__\<close>, which raises \<^verbatim>\<open>AttributeError\<close> when no class in the
  hierarchy has the attribute.
\<close>

definition get_json_update ::
  "string option \<Rightarrow> string option \<Rightarrow> pystate \<Rightarrow> (error + pydict) \<times> pystate" where
  "get_json_update cmd_loc theme s =
     (let cs = charting_settings (self s);
          posthog = [(''collect_logs'', JBool (log_collect cs))];
          login = (log_collect cs \<and> truthy (user_uuid cs) \<and> \<not> logged_in (self s));
          s1 = (if login then s\<lparr>self := (self s)\<lparr>logged_in := True\<rparr>\<rparr> else s);
          posthog1 = (if login
                      then dict_update posthog
                             [(''user_id'', opt_str (user_uuid cs)),
                              (''email'', opt_str (user_email cs))]
                      else posthog)
      in case PyWry_version s1 of
           None \<Rightarrow> (Inl AttributeError, s1)
         | Some v \<Rightarrow>
             (Inr [(''theme'', JStr (or_str theme (chart_style cs))),
                   (''log_id'', JStr (app_id cs)),
                   (''pywry_version'', JStr (version_text v)),
                   (''platform_version'', JStr (version cs)),
                   (''python_version'', JStr (python_version cs)),
                   (''posthog'', JObj posthog1),
                   (''command_location'', opt_str cmd_loc)],
              s1))"

text \<open>\<^verbatim>\<open>get_kwargs\<close>: window title, icon and download path.\<close>

definition get_kwargs :: "env \<Rightarrow> string option \<Rightarrow> pystate \<Rightarrow> message" where
  "get_kwargs e title s =
     [(''title'', PStr (''OpenBB Platform'' @ (if truthy title then '' - '' @ the title else []))),
      (''icon'', (case fst (get_window_icon e s) of Inr (Some p) \<Rightarrow> PPath p | _ \<Rightarrow> PNone)),
      (''download_path'', PStr (user_exports_directory (charting_settings (self s))))]"

text \<open>
  Modelled from the spec: \<^verbatim>\<open>PyWry.send_outgoing\<close> belongs to the external renderer
  library; the spec has the message queued for the renderer, so the message is appended
  to \<^verbatim>\<open>outgoing\<close>, the queue \<^verbatim>\<open>get_pending\<close> reads.
\<close>

definition send_outgoing :: "message \<Rightarrow> pystate \<Rightarrow> pystate" where
  "send_outgoing m s = s\<lparr>self := (self s)\<lparr>outgoing := outgoing (self s) @ [m]\<rparr>\<rparr>"

definition min_version :: pyversion where
  "min_version = [0, 5, 12]"

definition version_message :: string where
  "version_message =
     ''[bold red]PyWry version 0.5.12 or higher is required to use the OpenBB Plots backend.[/]''
       @ [CHR 0x0A] @ ''[yellow]Please update pywry with '' @ [CHR 0x27]
       @ ''pip install pywry --upgrade'' @ [CHR 0x27] @ ''[/]''"

text \<open>
  \<^verbatim>\<open>check_backend\<close>. Outside an interactive terminal it returns at once. A missing
  \<^verbatim>\<open>PyWry.__version__\<close> is imported from the module, and a failed import disables the
  retries and warns. Then the three version cases: below 0.5.12, above it, and exactly
  0.5.12, where the probe runs under \<^verbatim>\<open>run_until_complete\<close> inside
  \<^verbatim>\<open>try ... except Exception: return None\<close>. The value returned is \<^verbatim>\<open>None\<close> or what the
  renderer's probe returns.
\<close>

definition reported_version :: "env \<Rightarrow> pystate \<Rightarrow> pyversion option" where
  "reported_version e s =
     (case PyWry_version s of
        None \<Rightarrow> pywry_module_version e
      | Some v \<Rightarrow> Some v)"

definition check_backend :: "env \<Rightarrow> pystate \<Rightarrow> (error + string option) \<times> pystate" where
  "check_backend e s =
     (if \<not> isatty (self s) then (Inr None, s)
      else
        case reported_version e s of
          None \<Rightarrow> (Inr None, warn version_message (set_max_retries 0 s))
        | Some v \<Rightarrow>
            (let s1 = s\<lparr>PyWry_version := Some v\<rparr>
             in if version_lt v min_version
                then (Inr None, warn version_message (set_max_retries 0 s1))
                else if version_lt min_version v
                then (map_sum id Some (super_check_backend e),
                      s1\<lparr>trace := trace s1 @ [ProbeDirect]\<rparr>)
                else ((case super_check_backend e of
                         Inl err \<Rightarrow> Inr None
                       | Inr r \<Rightarrow> Inr (Some r)),
                      s1\<lparr>trace := trace s1 @ [ProbeBlocking]\<rparr>)))"

text \<open>\<^verbatim>\<open>close\<close>: with \<^verbatim>\<open>reset\<close> the retry budget is 50 again.\<close>

definition close :: "bool \<Rightarrow> pystate \<Rightarrow> pystate" where
  "close reset s = (if reset then set_max_retries 50 s else s)"

text \<open>
  \<^verbatim>\<open>process_image\<close>, the export watcher. The loop
  \<^verbatim>\<open>while not img_path.exists(): await asyncio.sleep(0.2); checks += 1; if checks > 50: break\<close>
  is \<open>poll\<close>: its argument tells whether the file exists after a given number of
  sleeps, and its value is the number of sleeps made when the loop is left.
\<close>

function poll :: "(nat \<Rightarrow> bool) \<Rightarrow> nat \<Rightarrow> nat" where
  "poll present checks =
     (if \<not> present checks
      then (if checks + 1 > 50 then checks + 1 else poll present (checks + 1))
      else checks)"
  by pat_completeness auto
termination
  by (relation "measure (\<lambda>(present, checks). 51 - checks)") auto

text \<open>
  The method returns \<^verbatim>\<open>None\<close> on every path; the model returns which branch the
  final \<^verbatim>\<open>if img_path.exists()\<close> took, under the names the spec gives the two outcomes.
  \<^verbatim>\<open>Path.resolve\<close> is taken as the identity on paths.
\<close>

datatype export_result = Found | TimedOut

definition process_image :: "env \<Rightarrow> path \<Rightarrow> pystate \<Rightarrow> (error + export_result) \<times> pystate" where
  "process_image e export_image s =
     (let img_path = export_image;
          checks = poll (export_exists e img_path) 0;
          s1 = s\<lparr>trace := trace s @ replicate checks Sleep\<rparr>
      in if export_exists e img_path checks
         then (if plot_open_export (charting_settings (self s1))
               then (if sys_platform e = ''win32''
                     then (Inr Found, s1\<lparr>trace := trace s1 @ [Startfile export_image]\<rparr>)
                     else (let opener = (if sys_platform e = ''darwin'' then ''open'' else ''xdg-open'');
                               s2 = s1\<lparr>trace := trace s1 @ [CheckCall opener export_image]\<rparr>
                           in if opener_succeeds e then (Inr Found, s2)
                              else (Inl CalledProcessError, s2)))
               else (Inr Found, s1))
         else (Inr TimedOut, s1))"

text \<open>\<^verbatim>\<open>json_data["layout"]["paper_bgcolor"] = paper_bg\<close>.\<close>

definition set_paper_bgcolor :: "string \<Rightarrow> pydict \<Rightarrow> error + pydict" where
  "set_paper_bgcolor bg d =
     (case map_of d ''layout'' of
        Some (JObj l) \<Rightarrow>
          Inr (AList.update ''layout'' (JObj (AList.update ''paper_bgcolor'' (JStr bg) l)) d)
      | _ \<Rightarrow> Inl (KeyError ''layout''))"

text \<open>
  \<^verbatim>\<open>send_figure\<close>. The figure is mutated in place (title, then height) before it is
  serialised, so the figure is returned with the state, also when a later step raises.
\<close>

definition send_figure ::
  "env \<Rightarrow> figure \<Rightarrow> string option \<Rightarrow> string option \<Rightarrow> pystate
     \<Rightarrow> (error + unit) \<times> pystate \<times> figure" where
  "send_figure e fig export_image command_location s =
     (case check_backend e s of
        (Inl err, s1) \<Rightarrow> (Inl err, s1, fig)
      | (Inr _, s1) \<Rightarrow>
          (let paper_bg = (if chart_style (charting_settings (self s1)) = ''dark''
                           then ''rgba(0,0,0,0)'' else ''rgba(255,255,255,0)'');
               title = ''Interactive Chart'';
               fig1 = fig\<lparr>layout_title_text :=
                        Some (strip_tags (if truthy (layout_title_text fig)
                                          then the (layout_title_text fig) else title))\<rparr>;
               fig2 = fig1\<lparr>layout_height := layout_height fig1 + 69\<rparr>;
               export = (if truthy export_image then export_image else None);
               json_data = fig_to_json fig2
           in case get_json_update command_location None s1 of
                (Inl err, s2) \<Rightarrow> (Inl err, s2, fig2)
              | (Inr upd, s2) \<Rightarrow>
                  (case set_paper_bgcolor paper_bg (dict_update json_data upd) of
                     Inl err \<Rightarrow> (Inl err, s2, fig2)
                   | Inr json_data1 \<Rightarrow>
                       (case get_plotly_html e s2 of
                          (Inl err, s3) \<Rightarrow> (Inl err, s3, fig2)
                        | (Inr html, s3) \<Rightarrow>
                            (let msg = [(''html'', PPath html),
                                        (''json_data'', PDict json_data1),
                                        (''export_image'',
                                           (case export of None \<Rightarrow> PNone | Some p \<Rightarrow> PPath p))]
                                       @ get_kwargs e command_location s3;
                                 s4 = send_outgoing msg s3
                             in case export of
                                  None \<Rightarrow> (Inr (), s4, fig2)
                                | Some p \<Rightarrow>
                                    (case process_image e p s4 of
                                       (Inl err, s5) \<Rightarrow> (Inl err, s5, fig2)
                                     | (Inr _, s5) \<Rightarrow> (Inr (), s5, fig2)))))))"

text \<open>
  \<^verbatim>\<open>send_table\<close>, the width of the window. \<open>columnwidth_of\<close> is the first
  comprehension: for each series, the larger of the length of its name and the largest
  length of its values (a series without rows has no largest length, and \<^verbatim>\<open>max\<close> keeps
  the length of the name). \<open>inflate\<close> is the second comprehension,
  \<^verbatim>\<open>int(x + (max(columnwidth) - min(columnwidth)) * 0.2)\<close>, and \<open>table_width\<close> is
  \<^verbatim>\<open>max(int(min(sum(columnwidth) * 9.7, self.WIDTH + 100)), 800)\<close>; \<^verbatim>\<open>min(a, b)\<close> is
  \<^verbatim>\<open>b\<close> exactly when \<^verbatim>\<open>b < a\<close>.
\<close>

fun columnwidth_of :: "selection list \<Rightarrow> nat list" where
  "columnwidth_of [] = []"
| "columnwidth_of (Series name vals # rest) =
     (if vals = [] then length name
      else max (length name) (Max (set (map length vals)))) # columnwidth_of rest"
| "columnwidth_of (NoSeries # rest) = columnwidth_of rest"

definition inflate :: "nat list \<Rightarrow> nat list" where
  "inflate columnwidth =
     map (\<lambda>x. dbl_trunc
                 (dbl_add (dbl_of_nat x)
                    (dbl_mul (dbl_of_nat (Max (set columnwidth) - Min (set columnwidth))) dbl_0_2)))
       columnwidth"

definition table_width :: "nat list \<Rightarrow> int \<Rightarrow> int" where
  "table_width columnwidth W =
     (let f = dbl_mul (dbl_of_nat (sum_list columnwidth)) dbl_9_7;
          cap = W + 100
      in max (if int_lt_dbl cap f then cap else int (dbl_trunc f)) 800)"

definition send_table ::
  "env \<Rightarrow> dataframe \<Rightarrow> string \<Rightarrow> string \<Rightarrow> string \<Rightarrow> string option \<Rightarrow> pystate
     \<Rightarrow> (error + unit) \<times> pystate" where
  "send_table e df_table title source theme command_location s =
     (case check_backend e s of
        (Inl err, s1) \<Rightarrow> (Inl err, s1)
      | (Inr _, s1) \<Rightarrow>
          (let title1 = (if title \<noteq> [] then strip_brackets (strip_tags title) else title);
               columnwidth = inflate (columnwidth_of (selections df_table));
               width = table_width columnwidth (WIDTH (self s1))
           in case get_json_update command_location (Some (or_str (Some theme) ''dark'')) s1 of
                (Inl err, s2) \<Rightarrow> (Inl err, s2)
              | (Inr upd, s2) \<Rightarrow>
                  (let json_data =
                         dict_update (split_json df_table)
                           ([(''title'', JStr title1),
                             (''source'', JStr (or_str (Some source) []))] @ upd)
                   in case get_table_html e s2 of
                        (Inl err, s3) \<Rightarrow> (Inl err, s3)
                      | (Inr html, s3) \<Rightarrow>
                          (let msg = [(''html'', PPath html),
                                      (''json_data'', PDumps json_data),
                                      (''width'', PInt width),
                                      (''height'', PInt (HEIGHT (self s3) - 100))]
                                     @ get_kwargs e command_location s3
                           in (Inr (), send_outgoing msg s3)))))"

text \<open>\<^verbatim>\<open>send_url\<close>: the redirect script as \<^verbatim>\<open>html\<close>, and the window size.\<close>

definition redirect_script :: "string \<Rightarrow> string" where
  "redirect_script url =
     [CHR 0x0A] @ ''        <script>'' @ [CHR 0x0A]
       @ ''            window.location.replace('' @ [CHR 0x22] @ url @ [CHR 0x22] @ '');''
       @ [CHR 0x0A] @ ''        </script>'' @ [CHR 0x0A] @ ''        ''"

definition send_url ::
  "env \<Rightarrow> string \<Rightarrow> string \<Rightarrow> int option \<Rightarrow> int option \<Rightarrow> pystate
     \<Rightarrow> (error + unit) \<times> pystate" where
  "send_url e url title width height s =
     (case check_backend e s of
        (Inl err, s1) \<Rightarrow> (Inl err, s1)
      | (Inr _, s1) \<Rightarrow>
          (let msg = [(''html'', PStr (redirect_script url))]
                     @ get_kwargs e (Some title) s1
                     @ [(''width'', PInt (or_int width (WIDTH (self s1)))),
                        (''height'', PInt (or_int height (HEIGHT (self s1))))]
           in (Inr (), send_outgoing msg s1)))"

section \<open>The charting backend: creating the handle\<close>

text \<open>
  Objects of class \<^verbatim>\<open>Backend\<close> live in a store, addressed by their position; a stored
  \<open>None\<close> is an object \<^verbatim>\<open>__new__\<close> has allocated and \<^verbatim>\<open>__init__\<close> has not yet filled.
  \<^verbatim>\<open>cls.instance\<close> is the class attribute (\<open>None\<close> when \<^verbatim>\<open>hasattr\<close> is false),
  \<^verbatim>\<open>BACKEND\<close> the module global, \<^verbatim>\<open>atexit\<close> the handlers registered, by receiver.
\<close>

record process =
  objects :: "backend option list"
  cls_instance :: "nat option"
  BACKEND :: "nat option"
  atexit :: "nat list"
  class_version :: "pyversion option"

text \<open>\<^verbatim>\<open>Backend.__new__\<close>: allocate once, then hand out \<^verbatim>\<open>cls.instance\<close>.\<close>

definition Backend_new :: "process \<Rightarrow> nat \<times> process" where
  "Backend_new p =
     (case cls_instance p of
        None \<Rightarrow> (length (objects p),
                 p\<lparr>objects := objects p @ [None], cls_instance := Some (length (objects p))\<rparr>)
      | Some a \<Rightarrow> (a, p))"

text \<open>
  \<^verbatim>\<open>Backend.__init__\<close> on the object at address \<open>a\<close>, with the defaults
  \<^verbatim>\<open>daemon=True, max_retries=30, proc_name="OpenBB Terminal"\<close>. Modelled from the spec:
  the constructor of \<^verbatim>\<open>PyWry\<close> belongs to the external renderer library; the handle owns
  a queue of pending messages, so it is taken to store its keyword arguments and to
  start with empty queues.
\<close>

definition Backend_init :: "env \<Rightarrow> nat \<Rightarrow> ChartingSettings \<Rightarrow> process \<Rightarrow> process" where
  "Backend_init e a settings p =
     (let has_version = (class_version p \<noteq> None);
          named = (has_version \<and> version_ge (the (class_version p)) [0, 4, 8]);
          tty = (\<not> JUPYTER_NOTEBOOK e \<and> stdin_isatty e \<and> process_name e = ''MainProcess'');
          tty1 = (if has_version \<and> class_version p = Some [0, 0, 0] then False else tty);
          obj = \<lparr>charting_settings = settings,
                 plotly_html = PLOTS_CORE_PATH e @ ''/plotly.html'',
                 table_html = PLOTS_CORE_PATH e @ ''/table.html'',
                 isatty = tty1,
                 WIDTH = 1400,
                 HEIGHT = 762,
                 logged_in = False,
                 max_retries = 30,
                 outgoing = [],
                 init_engine = [],
                 daemon = True,
                 proc_name = (if named then Some ''OpenBB Terminal'' else None)\<rparr>
      in p\<lparr>objects := (objects p)[a := Some obj], atexit := atexit p @ [a]\<rparr>)"

text \<open>The call \<^verbatim>\<open>Backend(charting_settings)\<close>: \<^verbatim>\<open>__new__\<close>, then \<^verbatim>\<open>__init__\<close> on its result.\<close>

definition Backend :: "env \<Rightarrow> ChartingSettings \<Rightarrow> process \<Rightarrow> nat \<times> process" where
  "Backend e settings p =
     (case Backend_new p of (a, p1) \<Rightarrow> (a, Backend_init e a settings p1))"

text \<open>\<^verbatim>\<open>create_backend\<close> and \<^verbatim>\<open>get_backend\<close>.\<close>

definition create_backend :: "env \<Rightarrow> ChartingSettings option \<Rightarrow> process \<Rightarrow> process" where
  "create_backend e charting_settings_arg p =
     (let settings = (case charting_settings_arg of
                        None \<Rightarrow> default_settings e
                      | Some c \<Rightarrow> c)
      in case BACKEND p of
           None \<Rightarrow> (case Backend e settings p of (a, p1) \<Rightarrow> p1\<lparr>BACKEND := Some a\<rparr>)
         | Some a \<Rightarrow> p)"

definition get_backend :: "process \<Rightarrow> error + nat" where
  "get_backend p =
     (case BACKEND p of
        None \<Rightarrow> Inl (ValueError ''Backend not created'')
      | Some a \<Rightarrow> Inr a)"

text \<open>The interpreter at start: no object, no class attribute, \<^verbatim>\<open>BACKEND = None\<close>.\<close>

definition initial_process :: "pyversion option \<Rightarrow> process" where
  "initial_process v =
     \<lparr>objects = [], cls_instance = None, BACKEND = None, atexit = [], class_version = v\<rparr>"

text \<open>
  What a program can do to create a handle: call \<^verbatim>\<open>create_backend\<close>, or call the
  constructor. \<open>run_creates\<close> runs a list of such calls and collects the handle each
  one yields (for \<^verbatim>\<open>create_backend\<close>, the handle \<^verbatim>\<open>BACKEND\<close> holds afterwards).
\<close>

datatype creation = CreateBackend "ChartingSettings option" | Construct ChartingSettings

fun run_creates :: "env \<Rightarrow> creation list \<Rightarrow> process \<Rightarrow> nat list \<times> process" where
  "run_creates e [] p = ([], p)"
| "run_creates e (CreateBackend c # cs) p =
     (let p1 = create_backend e c p
      in case run_creates e cs p1 of (hs, p2) \<Rightarrow> (the (BACKEND p1) # hs, p2))"
| "run_creates e (Construct c # cs) p =
     (case Backend e c p of
        (a, p1) \<Rightarrow> (case run_creates e cs p1 of (hs, p2) \<Rightarrow> (a # hs, p2)))"

section \<open>Reading a queued message\<close>

text \<open>
  The JSON body of a message (\<^verbatim>\<open>json_data\<close>, a dict for a figure and the dumped text of
  one for a table), and values inside it: the telemetry record, the title text and the
  height of the layout.
\<close>

definition body_of :: "message \<Rightarrow> pydict option" where
  "body_of m =
     (case map_of m ''json_data'' of
        Some (PDict d) \<Rightarrow> Some d
      | Some (PDumps d) \<Rightarrow> Some d
      | _ \<Rightarrow> None)"

definition member_of :: "string \<Rightarrow> pydict option \<Rightarrow> pydict option" where
  "member_of k d =
     (case d of
        None \<Rightarrow> None
      | Some kvs \<Rightarrow> (case map_of kvs k of Some (JObj o') \<Rightarrow> Some o' | _ \<Rightarrow> None))"

definition value_of :: "string \<Rightarrow> pydict option \<Rightarrow> json option" where
  "value_of k d = (case d of None \<Rightarrow> None | Some kvs \<Rightarrow> map_of kvs k)"

definition posthog_of :: "message \<Rightarrow> pydict option" where
  "posthog_of m = member_of ''posthog'' (body_of m)"

definition carries_identity :: "message \<Rightarrow> bool" where
  "carries_identity m =
     (case posthog_of m of
        None \<Rightarrow> False
      | Some ph \<Rightarrow> ''user_id'' \<in> set (map fst ph) \<or> ''email'' \<in> set (map fst ph))"

definition title_text_of :: "message \<Rightarrow> json option" where
  "title_text_of m = value_of ''text'' (member_of ''title'' (member_of ''layout'' (body_of m)))"

definition height_of :: "message \<Rightarrow> json option" where
  "height_of m = value_of ''height'' (member_of ''layout'' (body_of m))"




text \<open>The messages queued since \<open>s\<close>, read off the queue of a later state.\<close>

definition queued_since :: "pystate \<Rightarrow> pystate \<Rightarrow> message list" where
  "queued_since s s' = drop (length (outgoing (self s))) (outgoing (self s'))"

section \<open>The width of the table window as the spec words it\<close>





section \<open>Shorthands for the statements\<close>

text \<open>
  When \<^verbatim>\<open>get_json_update\<close> would add the identity of the user: logs are collected, the
  user has a uuid, and \<^verbatim>\<open>logged_in\<close> is still false.
\<close>

definition login_due :: "pystate \<Rightarrow> bool" where
  "login_due s =
     (log_collect (charting_settings (self s)) \<and> truthy (user_uuid (charting_settings (self s)))
      \<and> \<not> logged_in (self s))"

text \<open>The figure as \<^verbatim>\<open>send_figure\<close> leaves it: the title stripped, the height raised.\<close>

definition fig_mutated :: "figure \<Rightarrow> figure" where
  "fig_mutated fig =
     fig\<lparr>layout_title_text :=
            Some (strip_tags (if truthy (layout_title_text fig) then the (layout_title_text fig)
                              else ''Interactive Chart'')),
         layout_height := layout_height fig + 69\<rparr>"

text \<open>
  The shape of the store the creation calls keep: nothing created yet, or one object at
  address 0 that \<^verbatim>\<open>cls.instance\<close> names and \<^verbatim>\<open>BACKEND\<close>, once set, names too.
\<close>

definition one_handle :: "process \<Rightarrow> bool" where
  "one_handle p =
     ((cls_instance p = None \<and> objects p = [] \<and> BACKEND p = None)
      \<or> (cls_instance p = Some 0 \<and> length (objects p) = 1
          \<and> (BACKEND p = None \<or> BACKEND p = Some 0)))"

section \<open>A concrete process\<close>

text \<open>
  Settings, surroundings and a handle as \<^verbatim>\<open>Backend(example_settings)\<close> leaves it in an
  interactive terminal with renderer version 0.5.12. Both templates exist; the icon
  does not. The figure has a title with markup around the words of the default title.
  The table has two series, whose longest values have 40 and 44 characters, and one
  selection that is not a series.
\<close>

definition example_settings :: ChartingSettings where
  "example_settings =
     \<lparr>plot_pywry_width = Some 1400, plot_pywry_height = Some 762, log_collect = True,
      user_uuid = Some ''u-1'', user_email = Some ''user@example.org'', chart_style = ''dark'',
      app_id = ''app-1'', version = ''4.1.0'', python_version = ''3.11'',
      plot_open_export = False, user_exports_directory = ''/exports''\<rparr>"

definition example_env :: env where
  "example_env =
     \<lparr>PLOTS_CORE_PATH = ''/core'',
      path_exists = (\<lambda>p. p = ''/core/plotly.html'' \<or> p = ''/core/table.html''),
      pywry_module_version = Some [0, 5, 12],
      super_check_backend = Inr ''ok'',
      sys_platform = ''linux'',
      export_exists = (\<lambda>p n. False),
      opener_succeeds = True,
      JUPYTER_NOTEBOOK = False,
      stdin_isatty = True,
      process_name = ''MainProcess'',
      default_settings = example_settings\<rparr>"

definition example_backend :: backend where
  "example_backend =
     \<lparr>charting_settings = example_settings,
      plotly_html = ''/core/plotly.html'',
      table_html = ''/core/table.html'',
      isatty = True, WIDTH = 1400, HEIGHT = 762, logged_in = False, max_retries = 30,
      outgoing = [], init_engine = [], daemon = True, proc_name = Some ''OpenBB Terminal''\<rparr>"

definition example_state :: pystate where
  "example_state = \<lparr>self = example_backend, PyWry_version = Some [0, 5, 12], trace = []\<rparr>"

definition example_figure :: figure where
  "example_figure =
     \<lparr>fig_data = JArr [], layout_title_text = Some ''<b>Interactive Chart</b>'',
      layout_height = 762, layout_other = []\<rparr>"

definition example_table :: dataframe where
  "example_table =
     \<lparr>selections = [Series ''ticker'' [''AAPL'', replicate 40 (CHR ''x'')],
                    NoSeries,
                    Series ''name'' [replicate 44 (CHR ''y''), ''MSFT'']],
      split_json = [(''columns'', JArr [JStr ''ticker'', JStr ''name'']),
                    (''index'', JArr [JInt 0, JInt 1]),
                    (''data'', JArr [])]\<rparr>"


section \<open>Properties of the schema\<close>










section \<open>Properties of the export watcher\<close>

declare poll.simps [simp del]

lemma poll_bound: "checks \<le> 50 \<Longrightarrow> poll present checks \<le> 51"
  by (induction present checks rule: poll.induct) (subst poll.simps, auto)

lemma poll_present_now: "present checks \<Longrightarrow> poll present checks = checks"
  by (subst poll.simps) simp

lemma poll_never_present: "\<forall>t. \<not> present t \<Longrightarrow> checks \<le> 50 \<Longrightarrow> poll present checks = 51"
  by (induction present checks rule: poll.induct) (subst poll.simps, auto)

text \<open>
  Claim C1. For an export path whose file never appears, \<^verbatim>\<open>process_image\<close> ends in
  the timed-out branch without raising, after 51 sleeps: the loop leaves when
  \<^verbatim>\<open>checks > 50\<close>, one iteration later than the 50 the claim states.
\<close>

theorem process_image_never_appears:
  "fst (process_image (e\<lparr>export_exists := \<lambda>p n. False\<rparr>) img s) = Inr TimedOut
   \<and> trace (snd (process_image (e\<lparr>export_exists := \<lambda>p n. False\<rparr>) img s))
       = trace s @ replicate 51 Sleep"
proof -
  have "poll (\<lambda>n. False) 0 = 51"
    by (rule poll_never_present) simp_all
  then show ?thesis
    by (simp add: process_image_def)
qed

lemma process_image_found_at_once:
  "export_exists e img 0 \<Longrightarrow> \<not> plot_open_export (charting_settings (self s))
     \<Longrightarrow> process_image e img s = (Inr Found, s)"
  by (simp add: process_image_def poll_present_now)

section \<open>Properties of the asset lookups\<close>

lemma set_window_dimensions_fields [simp]:
  "plotly_html (self (set_window_dimensions s)) = plotly_html (self s)"
  "table_html (self (set_window_dimensions s)) = table_html (self s)"
  "max_retries (self (set_window_dimensions s)) = max_retries (self s)"
  "logged_in (self (set_window_dimensions s)) = logged_in (self s)"
  "outgoing (self (set_window_dimensions s)) = outgoing (self s)"
  "charting_settings (self (set_window_dimensions s)) = charting_settings (self s)"
  "isatty (self (set_window_dimensions s)) = isatty (self s)"
  "trace (set_window_dimensions s) = trace s"
  "PyWry_version (set_window_dimensions s) = PyWry_version s"
  "WIDTH (self (set_window_dimensions s)) = or_int (plot_pywry_width (charting_settings (self s))) 1400"
  "HEIGHT (self (set_window_dimensions s)) = or_int (plot_pywry_height (charting_settings (self s))) 762"
  by (simp_all add: set_window_dimensions_def Let_def)

text \<open>
  Claim C8, as the code has it. When \<^verbatim>\<open>plotly.html\<close> or \<^verbatim>\<open>table.html\<close> is missing, the
  lookup raises \<^verbatim>\<open>FileNotFoundError\<close>, and the state it leaves has \<^verbatim>\<open>max_retries = 0\<close>
  and one more warning. When the window icon is missing, the lookup returns \<^verbatim>\<open>None\<close>
  and leaves the state as it was.
\<close>

theorem missing_assets:
  "(\<not> path_exists e (plotly_html (self s)) \<longrightarrow>
      fst (get_plotly_html e s) = Inl FileNotFoundError
      \<and> max_retries (self (snd (get_plotly_html e s))) = 0
      \<and> trace (snd (get_plotly_html e s)) = trace s @ [Warn (not_found_message ''plotly.html'' e)])
   \<and> (\<not> path_exists e (table_html (self s)) \<longrightarrow>
      fst (get_table_html e s) = Inl FileNotFoundError
      \<and> max_retries (self (snd (get_table_html e s))) = 0
      \<and> trace (snd (get_table_html e s)) = trace s @ [Warn (not_found_message ''table.html'' e)])
   \<and> (\<not> path_exists e (PLOTS_CORE_PATH e @ ''/assets/Terminal_icon.png'') \<longrightarrow>
      get_window_icon e s = (Inr None, s))"
  by (simp add: get_plotly_html_def get_table_html_def get_window_icon_def Let_def
        set_max_retries_def warn_def)

text \<open>With no file at all, on the example handle (whose retry budget is 30).\<close>

theorem missing_assets_witness:
  "\<not> path_exists (example_env\<lparr>path_exists := \<lambda>p. False\<rparr>) (plotly_html (self example_state))
   \<and> fst (get_plotly_html (example_env\<lparr>path_exists := \<lambda>p. False\<rparr>) example_state)
       = Inl FileNotFoundError
   \<and> max_retries (self (snd (get_plotly_html (example_env\<lparr>path_exists := \<lambda>p. False\<rparr>)
                                example_state))) = 0
   \<and> \<not> path_exists (example_env\<lparr>path_exists := \<lambda>p. False\<rparr>) (table_html (self example_state))
   \<and> fst (get_table_html (example_env\<lparr>path_exists := \<lambda>p. False\<rparr>) example_state)
       = Inl FileNotFoundError
   \<and> max_retries (self (snd (get_table_html (example_env\<lparr>path_exists := \<lambda>p. False\<rparr>)
                                example_state))) = 0
   \<and> get_window_icon (example_env\<lparr>path_exists := \<lambda>p. False\<rparr>) example_state
       = (Inr None, example_state)"
  using missing_assets [of "example_env\<lparr>path_exists := \<lambda>p. False\<rparr>" example_state]
  by simp

text \<open>
  The claim as stated fails for the icon: in the example surroundings the icon file is
  missing, and the lookup returns \<^verbatim>\<open>None\<close> with the retry budget still 30.
\<close>

theorem missing_icon_counterexample:
  "\<not> path_exists example_env (PLOTS_CORE_PATH example_env @ ''/assets/Terminal_icon.png'')
   \<and> fst (get_window_icon example_env example_state) = Inr None
   \<and> max_retries (self (snd (get_window_icon example_env example_state))) = 30"
  by (simp add: get_window_icon_def example_env_def example_state_def example_backend_def)

section \<open>Properties of the health check\<close>






section \<open>What a dispatch does to the handle\<close>

lemma check_backend_self:
  "self (snd (check_backend e s)) = (self s)\<lparr>max_retries := max_retries (self (snd (check_backend e s)))\<rparr>"
  by (auto simp: check_backend_def Let_def set_max_retries_def warn_def split: option.splits sum.splits)

lemma check_backend_keeps [simp]:
  "outgoing (self (snd (check_backend e s))) = outgoing (self s)"
  "logged_in (self (snd (check_backend e s))) = logged_in (self s)"
  "charting_settings (self (snd (check_backend e s))) = charting_settings (self s)"
  "WIDTH (self (snd (check_backend e s))) = WIDTH (self s)"
  "HEIGHT (self (snd (check_backend e s))) = HEIGHT (self s)"
  "plotly_html (self (snd (check_backend e s))) = plotly_html (self s)"
  "table_html (self (snd (check_backend e s))) = table_html (self s)"
  by (subst check_backend_self, simp)+

lemma get_json_update_keeps [simp]:
  "outgoing (self (snd (get_json_update loc th s))) = outgoing (self s)"
  "charting_settings (self (snd (get_json_update loc th s))) = charting_settings (self s)"
  "WIDTH (self (snd (get_json_update loc th s))) = WIDTH (self s)"
  "HEIGHT (self (snd (get_json_update loc th s))) = HEIGHT (self s)"
  "plotly_html (self (snd (get_json_update loc th s))) = plotly_html (self s)"
  "table_html (self (snd (get_json_update loc th s))) = table_html (self s)"
  "max_retries (self (snd (get_json_update loc th s))) = max_retries (self s)"
  "trace (snd (get_json_update loc th s)) = trace s"
  "PyWry_version (snd (get_json_update loc th s)) = PyWry_version s"
  by (auto simp: get_json_update_def Let_def split: option.splits)

lemma get_html_keeps [simp]:
  "outgoing (self (snd (get_plotly_html e s))) = outgoing (self s)"
  "logged_in (self (snd (get_plotly_html e s))) = logged_in (self s)"
  "charting_settings (self (snd (get_plotly_html e s))) = charting_settings (self s)"
  "outgoing (self (snd (get_table_html e s))) = outgoing (self s)"
  "logged_in (self (snd (get_table_html e s))) = logged_in (self s)"
  "charting_settings (self (snd (get_table_html e s))) = charting_settings (self s)"
  by (auto simp: get_plotly_html_def get_table_html_def Let_def set_max_retries_def warn_def)

lemma process_image_self [simp]: "self (snd (process_image e p s)) = self s"
  by (simp add: process_image_def Let_def)

lemma send_outgoing_fields [simp]:
  "outgoing (self (send_outgoing m s)) = outgoing (self s) @ [m]"
  "logged_in (self (send_outgoing m s)) = logged_in (self s)"
  "charting_settings (self (send_outgoing m s)) = charting_settings (self s)"
  by (simp_all add: send_outgoing_def)

lemma keys_get_kwargs [simp]: "map fst (get_kwargs e t s) = [''title'', ''icon'', ''download_path'']"
  by (simp add: get_kwargs_def)



lemma get_json_update_logged_in:
  "logged_in (self (snd (get_json_update loc th s))) = (logged_in (self s) \<or> login_due s)"
  by (auto simp: get_json_update_def login_due_def Let_def split: option.splits)

lemma get_json_update_Inr:
  assumes "get_json_update loc th s = (Inr upd, s')"
  shows "\<exists>v1 v2 v3 v4 v5 v7 ph.
           upd = [(''theme'', v1), (''log_id'', v2), (''pywry_version'', v3),
                  (''platform_version'', v4), (''python_version'', v5),
                  (''posthog'', JObj ph), (''command_location'', v7)]
           \<and> ((''user_id'' \<in> set (map fst ph) \<or> ''email'' \<in> set (map fst ph)) \<longrightarrow> login_due s)"
  using assms
  by (auto simp: get_json_update_def login_due_def Let_def dict_update_def split: option.splits if_splits)

lemma figure_body:
  assumes "upd = [(''theme'', v1), (''log_id'', v2), (''pywry_version'', v3),
                  (''platform_version'', v4), (''python_version'', v5),
                  (''posthog'', JObj ph), (''command_location'', v7)]"
  shows "\<exists>jd. set_paper_bgcolor bg (dict_update (fig_to_json f) upd) = Inr jd
     \<and> member_of ''posthog'' (Some jd) = Some ph
     \<and> value_of ''height'' (member_of ''layout'' (Some jd)) = Some (JInt (layout_height f))
     \<and> value_of ''text'' (member_of ''title'' (member_of ''layout'' (Some jd)))
          = Some (opt_str (layout_title_text f))"
  by (simp add: assms set_paper_bgcolor_def dict_update_def fig_to_json_def member_of_def value_of_def)

lemma send_figure_effect:
  fixes e fig x loc s
  defines "res \<equiv> send_figure e fig x loc s"
  defines "s' \<equiv> fst (snd res)"
  shows "((\<exists>err. fst (check_backend e s) = Inl err) \<longrightarrow> snd (snd res) = fig \<and> queued_since s s' = [])
    \<and> ((\<forall>err. fst (check_backend e s) \<noteq> Inl err) \<longrightarrow> snd (snd res) = fig_mutated fig)
    \<and> (queued_since s s' = [] \<or>
        (\<exists>m. queued_since s s' = [m]
           \<and> map fst m = [''html'', ''json_data'', ''export_image'', ''title'', ''icon'', ''download_path'']
           \<and> height_of m = Some (JInt (layout_height fig + 69))
           \<and> title_text_of m = Some (opt_str (layout_title_text (fig_mutated fig)))
           \<and> (carries_identity m \<longrightarrow> login_due s)))
    \<and> (fst res = Inr () \<longrightarrow> queued_since s s' \<noteq> [])
    \<and> (logged_in (self s) \<longrightarrow> logged_in (self s'))
    \<and> (queued_since s s' \<noteq> [] \<longrightarrow> logged_in (self s') = (logged_in (self s) \<or> login_due s))
    \<and> outgoing (self s') = outgoing (self s) @ queued_since s s'
    \<and> charting_settings (self s') = charting_settings (self s)"
proof -
  obtain r1 s1 where cb: "check_backend e s = (r1, s1)" by fastforce
  have k1: "outgoing (self s1) = outgoing (self s)" "logged_in (self s1) = logged_in (self s)"
    "charting_settings (self s1) = charting_settings (self s)"
    using check_backend_keeps [of e s] cb by simp_all
  then have ld1: "login_due s1 = login_due s" by (simp add: login_due_def)
  show ?thesis
  proof (cases r1)
    case (Inl err)
    then have "res = (Inl err, s1, fig)" by (simp add: res_def send_figure_def cb)
    then show ?thesis using cb Inl k1 by (simp add: s'_def queued_since_def)
  next
    case (Inr v)
    have nerr: "\<forall>err. fst (check_backend e s) \<noteq> Inl err" using cb Inr by simp
    obtain r2 s2 where ju: "get_json_update loc None s1 = (r2, s2)" by fastforce
    have k2: "outgoing (self s2) = outgoing (self s)"
      "charting_settings (self s2) = charting_settings (self s)"
      using get_json_update_keeps(1,2) [of loc None s1] ju k1 by simp_all
    have l2: "logged_in (self s2) = (logged_in (self s) \<or> login_due s)"
      using get_json_update_logged_in [of loc None s1] ju k1 ld1 by simp
    show ?thesis
    proof (cases r2)
      case (Inl err)
      then have "res = (Inl err, s2, fig_mutated fig)"
        by (simp add: res_def send_figure_def cb Inr ju Let_def fig_mutated_def)
      then show ?thesis using nerr k2 l2 by (auto simp: s'_def queued_since_def)
    next
      case (Inr upd)
      from get_json_update_Inr [OF ju [unfolded Inr]] obtain v1 v2 v3 v4 v5 v7 ph where
        upd: "upd = [(''theme'', v1), (''log_id'', v2), (''pywry_version'', v3),
                  (''platform_version'', v4), (''python_version'', v5),
                  (''posthog'', JObj ph), (''command_location'', v7)]"
        and ph: "(''user_id'' \<in> set (map fst ph) \<or> ''email'' \<in> set (map fst ph)) \<longrightarrow> login_due s1"
        by blast
      define bg where "bg = (if chart_style (charting_settings (self s1)) = ''dark''
                           then ''rgba(0,0,0,0)'' else ''rgba(255,255,255,0)'')"
      from figure_body [OF upd, of bg "fig_mutated fig"] obtain jd where
        jd: "set_paper_bgcolor bg (dict_update (fig_to_json (fig_mutated fig)) upd) = Inr jd"
        and jd_ph: "member_of ''posthog'' (Some jd) = Some ph"
        and jd_h: "value_of ''height'' (member_of ''layout'' (Some jd)) = Some (JInt (layout_height (fig_mutated fig)))"
        and jd_t: "value_of ''text'' (member_of ''title'' (member_of ''layout'' (Some jd)))
          = Some (opt_str (layout_title_text (fig_mutated fig)))"
        by blast
      obtain r3 s3 where ph3: "get_plotly_html e s2 = (r3, s3)" by fastforce
      have k3: "outgoing (self s3) = outgoing (self s)" "logged_in (self s3) = logged_in (self s2)"
        "charting_settings (self s3) = charting_settings (self s)"
        using get_html_keeps(1,2,3) [of e s2] ph3 k2 by simp_all
      show ?thesis
      proof (cases r3)
        case (Inl err)
        then have "res = (Inl err, s3, fig_mutated fig)"
          using jd
          by (simp add: res_def send_figure_def cb \<open>r1 = Inr v\<close> ju Inr Let_def fig_mutated_def bg_def ph3)
        then show ?thesis using nerr k3 l2 by (auto simp: s'_def queued_since_def)
      next
        case (Inr html)
        define export where "export = (if truthy x then x else None)"
        define msg where "msg = [(''html'', PPath html), (''json_data'', PDict jd),
              (''export_image'', (case export of None \<Rightarrow> PNone | Some p \<Rightarrow> PPath p))]
              @ get_kwargs e loc s3"
        have m1: "map fst msg = [''html'', ''json_data'', ''export_image'', ''title'', ''icon'', ''download_path'']"
          by (simp add: msg_def)
        have m2: "body_of msg = Some jd" by (simp add: msg_def body_of_def)
        have m3: "height_of msg = Some (JInt (layout_height fig + 69))"
          using jd_h by (simp add: height_of_def m2 fig_mutated_def)
        have m4: "title_text_of msg = Some (opt_str (layout_title_text (fig_mutated fig)))"
          using jd_t by (simp add: title_text_of_def m2)
        have m5: "carries_identity msg \<longrightarrow> login_due s"
          using ph ld1 jd_ph by (simp add: carries_identity_def posthog_of_def m2)
        have "\<exists>r s5. res = (r, s5, fig_mutated fig) \<and> self s5 = self (send_outgoing msg s3)
                \<and> (export = None \<longrightarrow> r = Inr ())"
          using jd
          by (cases export; cases "process_image e (the export) (send_outgoing msg s3)";
              cases "fst (process_image e (the export) (send_outgoing msg s3))";
              simp add: res_def send_figure_def cb \<open>r1 = Inr v\<close> ju \<open>r2 = Inr upd\<close> Let_def fig_mutated_def bg_def ph3 Inr
                msg_def export_def;
              metis process_image_self snd_conv)
        then obtain r s5 where r5: "res = (r, s5, fig_mutated fig)" "self s5 = self (send_outgoing msg s3)" by blast
        have q: "queued_since s s' = [msg]"
          using r5 k3 by (simp add: s'_def queued_since_def)
        show ?thesis using nerr q m1 m3 m4 m5 r5 k3 l2 by (simp add: s'_def)
      qed
    qed
  qed
qed


lemma table_body:
  assumes "upd = [(''theme'', v1), (''log_id'', v2), (''pywry_version'', v3),
                  (''platform_version'', v4), (''python_version'', v5),
                  (''posthog'', JObj ph), (''command_location'', v7)]"
  shows "member_of ''posthog'' (Some (dict_update d ([(''title'', t), (''source'', src)] @ upd))) = Some ph"
  by (simp add: assms dict_update_def member_of_def update_conv')

lemma send_table_effect:
  fixes e df title source theme loc s
  defines "res \<equiv> send_table e df title source theme loc s"
  defines "s' \<equiv> snd res"
  shows "(queued_since s s' = [] \<or>
        (\<exists>m. queued_since s s' = [m]
           \<and> map fst m = [''html'', ''json_data'', ''width'', ''height'', ''title'', ''icon'', ''download_path'']
           \<and> map_of m ''width''
               = Some (PInt (table_width (inflate (columnwidth_of (selections df))) (WIDTH (self s))))
           \<and> (carries_identity m \<longrightarrow> login_due s)))
    \<and> (fst res = Inr () \<longrightarrow> queued_since s s' \<noteq> [])
    \<and> (logged_in (self s) \<longrightarrow> logged_in (self s'))
    \<and> (queued_since s s' \<noteq> [] \<longrightarrow> logged_in (self s') = (logged_in (self s) \<or> login_due s))
    \<and> outgoing (self s') = outgoing (self s) @ queued_since s s'
    \<and> charting_settings (self s') = charting_settings (self s)"
proof -
  obtain r1 s1 where cb: "check_backend e s = (r1, s1)" by fastforce
  have k1: "outgoing (self s1) = outgoing (self s)" "logged_in (self s1) = logged_in (self s)"
    "charting_settings (self s1) = charting_settings (self s)" "WIDTH (self s1) = WIDTH (self s)"
    using check_backend_keeps [of e s] cb by simp_all
  then have ld1: "login_due s1 = login_due s" by (simp add: login_due_def)
  show ?thesis
  proof (cases r1)
    case (Inl err)
    then have "res = (Inl err, s1)" by (simp add: res_def send_table_def cb)
    then show ?thesis using k1 by (simp add: s'_def queued_since_def)
  next
    case (Inr v)
    define th where "th = Some (or_str (Some theme) ''dark'')"
    obtain r2 s2 where ju: "get_json_update loc th s1 = (r2, s2)" by fastforce
    have k2: "outgoing (self s2) = outgoing (self s)"
      "charting_settings (self s2) = charting_settings (self s)"
      using get_json_update_keeps(1,2) [of loc th s1] ju k1 by simp_all
    have l2: "logged_in (self s2) = (logged_in (self s) \<or> login_due s)"
      using get_json_update_logged_in [of loc th s1] ju k1 ld1 by simp
    show ?thesis
    proof (cases r2)
      case (Inl err)
      then have "res = (Inl err, s2)"
        by (simp add: res_def send_table_def cb Inr ju [unfolded th_def] Let_def)
      then show ?thesis using k2 l2 by (auto simp: s'_def queued_since_def)
    next
      case (Inr upd)
      from get_json_update_Inr [OF ju [unfolded Inr]] obtain v1 v2 v3 v4 v5 v7 ph where
        upd: "upd = [(''theme'', v1), (''log_id'', v2), (''pywry_version'', v3),
                  (''platform_version'', v4), (''python_version'', v5),
                  (''posthog'', JObj ph), (''command_location'', v7)]"
        and ph: "(''user_id'' \<in> set (map fst ph) \<or> ''email'' \<in> set (map fst ph)) \<longrightarrow> login_due s1"
        by blast
      define title1 where "title1 = (if title \<noteq> [] then strip_brackets (strip_tags title) else title)"
      define jd where "jd = dict_update (split_json df)
                           ([(''title'', JStr title1),
                             (''source'', JStr (or_str (Some source) []))] @ upd)"
      have jd_ph: "member_of ''posthog'' (Some jd) = Some ph"
        unfolding jd_def by (rule table_body [OF upd])
      obtain r3 s3 where ph3: "get_table_html e s2 = (r3, s3)" by fastforce
      have k3: "outgoing (self s3) = outgoing (self s)" "logged_in (self s3) = logged_in (self s2)"
        "charting_settings (self s3) = charting_settings (self s)"
        using get_html_keeps(4,5,6) [of e s2] ph3 k2 by simp_all
      show ?thesis
      proof (cases r3)
        case (Inl err)
        then have "res = (Inl err, s3)"
          by (simp add: res_def send_table_def cb \<open>r1 = Inr v\<close> ju [unfolded th_def] Inr Let_def ph3)
        then show ?thesis using k3 l2 by (auto simp: s'_def queued_since_def)
      next
        case (Inr html)
        define msg where "msg = [(''html'', PPath html), (''json_data'', PDumps jd),
              (''width'', PInt (table_width (inflate (columnwidth_of (selections df))) (WIDTH (self s1)))),
              (''height'', PInt (HEIGHT (self s3) - 100))]
              @ get_kwargs e loc s3"
        have m1: "map fst msg = [''html'', ''json_data'', ''width'', ''height'', ''title'', ''icon'', ''download_path'']"
          by (simp add: msg_def)
        have m2: "body_of msg = Some jd" by (simp add: msg_def body_of_def)
        have m3: "map_of msg ''width''
               = Some (PInt (table_width (inflate (columnwidth_of (selections df))) (WIDTH (self s))))"
          by (simp add: msg_def k1)
        have m5: "carries_identity msg \<longrightarrow> login_due s"
          using ph ld1 jd_ph by (simp add: carries_identity_def posthog_of_def m2)
        have r5: "res = (Inr (), send_outgoing msg s3)"
          by (simp add: res_def send_table_def cb \<open>r1 = Inr v\<close> ju [unfolded th_def] \<open>r2 = Inr upd\<close> Let_def ph3 Inr
                msg_def jd_def title1_def)
        have q: "queued_since s s' = [msg]"
          using r5 k3 by (simp add: s'_def queued_since_def)
        show ?thesis using q m1 m3 m5 r5 k3 l2 by (simp add: s'_def)
      qed
    qed
  qed
qed

lemma send_url_effect:
  fixes e url title width height s
  defines "res \<equiv> send_url e url title width height s"
  defines "s' \<equiv> snd res"
  shows "(queued_since s s' = [] \<or>
        (\<exists>m. queued_since s s' = [m]
           \<and> map fst m = [''html'', ''title'', ''icon'', ''download_path'', ''width'', ''height'']
           \<and> \<not> carries_identity m))
    \<and> (fst res = Inr () \<longrightarrow> queued_since s s' \<noteq> [])
    \<and> logged_in (self s') = logged_in (self s)
    \<and> outgoing (self s') = outgoing (self s) @ queued_since s s'
    \<and> charting_settings (self s') = charting_settings (self s)"
proof -
  obtain r1 s1 where cb: "check_backend e s = (r1, s1)" by fastforce
  have k1: "outgoing (self s1) = outgoing (self s)" "logged_in (self s1) = logged_in (self s)"
    "charting_settings (self s1) = charting_settings (self s)"
    using check_backend_keeps [of e s] cb by simp_all
  show ?thesis
  proof (cases r1)
    case (Inl err)
    then have "res = (Inl err, s1)" by (simp add: res_def send_url_def cb)
    then show ?thesis using k1 by (simp add: s'_def queued_since_def)
  next
    case (Inr v)
    define msg where "msg = [(''html'', PStr (redirect_script url))]
                     @ get_kwargs e (Some title) s1
                     @ [(''width'', PInt (or_int width (WIDTH (self s1)))),
                        (''height'', PInt (or_int height (HEIGHT (self s1))))]"
    have r5: "res = (Inr (), send_outgoing msg s1)"
      by (simp add: res_def send_url_def cb Inr Let_def msg_def)
    have m1: "map fst msg = [''html'', ''title'', ''icon'', ''download_path'', ''width'', ''height'']"
      by (simp add: msg_def)
    have m2: "\<not> carries_identity msg"
      by (simp add: msg_def carries_identity_def posthog_of_def body_of_def member_of_def get_kwargs_def)
    have q: "queued_since s s' = [msg]"
      using r5 k1 by (simp add: s'_def queued_since_def)
    show ?thesis using q m1 m2 r5 k1 by (simp add: s'_def)
  qed
qed

section \<open>Properties of the tag stripping\<close>





section \<open>Evaluating the model on concrete input\<close>

declare bits.simps [simp del]

lemma bits_eval [simp]:
  "bits 0 = 0" "bits 1 = 1" "bits (Suc 0) = 1"
  "bits (numeral k) = Suc (bits (numeral k div 2))"
  by (subst bits.simps, simp)+


lemmas eval_defs = send_figure_def send_table_def send_url_def example_env_def example_figure_def
  example_state_def example_backend_def example_settings_def check_backend_def
  reported_version_def version_lt_def min_version_def strip_trailing_zeros_def
  get_json_update_def Let_def truthy_def dict_update_def set_paper_bgcolor_def fig_to_json_def
  get_plotly_html_def get_table_html_def set_window_dimensions_def or_int_def get_kwargs_def
  get_window_icon_def send_outgoing_def opt_str_def or_str_def version_text_def queued_since_def


lemma example_figure_keys:
  "map (map fst) (queued_since example_state (fst (snd
      (send_figure example_env example_figure None (Some ''/equity/price'') example_state))))
   = [[''html'', ''json_data'', ''export_image'', ''title'', ''icon'', ''download_path'']]"
  by (simp add: eval_defs)

lemma example_table_keys:
  "map (map fst) (queued_since example_state (snd
      (send_table example_env example_table ''Quotes'' ''source'' ''dark'' None example_state)))
   = [[''html'', ''json_data'', ''width'', ''height'', ''title'', ''icon'', ''download_path'']]"
  by (simp add: eval_defs)

lemma example_url_keys:
  "map (map fst) (queued_since example_state (snd
      (send_url example_env ''https://openbb.co'' ''Docs'' None None example_state)))
   = [[''html'', ''title'', ''icon'', ''download_path'', ''width'', ''height'']]"
  by (simp add: eval_defs)




section \<open>Properties of the three dispatch operations\<close>

text \<open>
  Claim C5, as the code has it. Every message a dispatch queues is a mapping with a
  fixed list of keys, and a dispatch that returns queues exactly one message. A figure
  message has \<^verbatim>\<open>html\<close>, \<^verbatim>\<open>json_data\<close>, \<^verbatim>\<open>export_image\<close>, \<^verbatim>\<open>title\<close>, \<^verbatim>\<open>icon\<close> and
  \<^verbatim>\<open>download_path\<close>, and neither \<^verbatim>\<open>width\<close> nor \<^verbatim>\<open>height\<close>. A table message has
  \<^verbatim>\<open>html\<close>, \<^verbatim>\<open>json_data\<close>, \<^verbatim>\<open>width\<close>, \<^verbatim>\<open>height\<close>, \<^verbatim>\<open>title\<close>, \<^verbatim>\<open>icon\<close> and
  \<^verbatim>\<open>download_path\<close>. A URL message has \<^verbatim>\<open>html\<close>, \<^verbatim>\<open>title\<close>, \<^verbatim>\<open>icon\<close>,
  \<^verbatim>\<open>download_path\<close>, \<^verbatim>\<open>width\<close> and \<^verbatim>\<open>height\<close>, and no \<^verbatim>\<open>json_data\<close>.
\<close>

theorem message_keys:
  "(\<forall>m \<in> set (queued_since s (fst (snd (send_figure e fig export_image loc s)))).
       map fst m = [''html'', ''json_data'', ''export_image'', ''title'', ''icon'', ''download_path''])
   \<and> (\<forall>m \<in> set (queued_since s (snd (send_table e df title source theme loc s))).
       map fst m = [''html'', ''json_data'', ''width'', ''height'', ''title'', ''icon'', ''download_path''])
   \<and> (\<forall>m \<in> set (queued_since s (snd (send_url e url url_title width height s))).
       map fst m = [''html'', ''title'', ''icon'', ''download_path'', ''width'', ''height''])
   \<and> (fst (send_figure e fig export_image loc s) = Inr () \<longrightarrow>
       length (queued_since s (fst (snd (send_figure e fig export_image loc s)))) = 1)
   \<and> (fst (send_table e df title source theme loc s) = Inr () \<longrightarrow>
       length (queued_since s (snd (send_table e df title source theme loc s))) = 1)
   \<and> (fst (send_url e url url_title width height s) = Inr () \<longrightarrow>
       length (queued_since s (snd (send_url e url url_title width height s))) = 1)"
proof -
  note f = send_figure_effect [where e = e and fig = fig and x = export_image and loc = loc and s = s]
  note t = send_table_effect [where e = e and df = df and title = title and source = source
                             and theme = theme and loc = loc and s = s]
  note u = send_url_effect [where e = e and url = url and title = url_title and width = width
                           and height = height and s = s]
  note fq = f [THEN conjunct2, THEN conjunct2, THEN conjunct1]
  note fs = f [THEN conjunct2, THEN conjunct2, THEN conjunct2, THEN conjunct1]
  note tq = t [THEN conjunct1]
  note ts = t [THEN conjunct2, THEN conjunct1]
  note uq = u [THEN conjunct1]
  note us = u [THEN conjunct2, THEN conjunct1]
  have 1: "\<forall>m \<in> set (queued_since s (fst (snd (send_figure e fig export_image loc s)))).
       map fst m = [''html'', ''json_data'', ''export_image'', ''title'', ''icon'', ''download_path'']"
    using fq by auto
  have 2: "\<forall>m \<in> set (queued_since s (snd (send_table e df title source theme loc s))).
       map fst m = [''html'', ''json_data'', ''width'', ''height'', ''title'', ''icon'', ''download_path'']"
    using tq by auto
  have 3: "\<forall>m \<in> set (queued_since s (snd (send_url e url url_title width height s))).
       map fst m = [''html'', ''title'', ''icon'', ''download_path'', ''width'', ''height'']"
    using uq by auto
  have 4: "fst (send_figure e fig export_image loc s) = Inr () \<longrightarrow>
       length (queued_since s (fst (snd (send_figure e fig export_image loc s)))) = 1"
    using fq fs by auto
  have 5: "fst (send_table e df title source theme loc s) = Inr () \<longrightarrow>
       length (queued_since s (snd (send_table e df title source theme loc s))) = 1"
    using tq ts by auto
  have 6: "fst (send_url e url url_title width height s) = Inr () \<longrightarrow>
       length (queued_since s (snd (send_url e url url_title width height s))) = 1"
    using uq us by auto
  from 1 2 3 4 5 6 show ?thesis by blast
qed

text \<open>The three dispatches on the example handle: each returns and queues one message.\<close>

theorem message_keys_witness:
  "fst (send_figure example_env example_figure None (Some ''/equity/price'') example_state) = Inr ()
   \<and> length (queued_since example_state (fst (snd
        (send_figure example_env example_figure None (Some ''/equity/price'') example_state)))) = 1
   \<and> fst (send_table example_env example_table ''Quotes'' ''source'' ''dark'' None example_state)
       = Inr ()
   \<and> map (map fst) (queued_since example_state (snd
        (send_table example_env example_table ''Quotes'' ''source'' ''dark'' None example_state)))
       = [[''html'', ''json_data'', ''width'', ''height'', ''title'', ''icon'', ''download_path'']]
   \<and> fst (send_url example_env ''https://openbb.co'' ''Docs'' None None example_state) = Inr ()
   \<and> map (map fst) (queued_since example_state (snd
        (send_url example_env ''https://openbb.co'' ''Docs'' None None example_state)))
       = [[''html'', ''title'', ''icon'', ''download_path'', ''width'', ''height'']]"
proof -
  have r: "fst (send_figure example_env example_figure None (Some ''/equity/price'') example_state)
             = Inr ()"
    "fst (send_table example_env example_table ''Quotes'' ''source'' ''dark'' None example_state)
       = Inr ()"
    "fst (send_url example_env ''https://openbb.co'' ''Docs'' None None example_state) = Inr ()"
    by (simp_all add: eval_defs)
  from message_keys [of example_state example_env example_figure None "Some ''/equity/price''"
                        example_table "''Quotes''" "''source''" "''dark''"
                        "''https://openbb.co''" "''Docs''" None None]
       r example_table_keys example_url_keys
  show ?thesis by simp
qed

text \<open>
  The claim as stated fails for a figure: the one message the example dispatch queues
  has an \<^verbatim>\<open>export_image\<close> key and neither \<^verbatim>\<open>width\<close> nor \<^verbatim>\<open>height\<close>.
\<close>

theorem figure_message_counterexample:
  "map (map fst) (queued_since example_state (fst (snd
      (send_figure example_env example_figure None (Some ''/equity/price'') example_state))))
     = [[''html'', ''json_data'', ''export_image'', ''title'', ''icon'', ''download_path'']]
   \<and> ''width'' \<notin> set [''html'', ''json_data'', ''export_image'', ''title'', ''icon'', ''download_path'']
   \<and> ''height'' \<notin> set [''html'', ''json_data'', ''export_image'', ''title'', ''icon'', ''download_path'']"
  using example_figure_keys by simp






section \<open>The identity of the user in the queue\<close>

lemma queued_since_self [simp]: "queued_since s s = []"
  by (simp add: queued_since_def)






section \<open>Properties of the creation of the handle\<close>

lemma one_handle_initial: "one_handle (initial_process v)"
  by (simp add: one_handle_def initial_process_def)

lemma Backend_one_handle:
  assumes "one_handle p"
  shows "fst (Backend e c p) = 0 \<and> one_handle (snd (Backend e c p))
         \<and> length (objects (snd (Backend e c p))) = 1
         \<and> BACKEND (snd (Backend e c p)) = BACKEND p
         \<and> map (map_option charting_settings) (objects (snd (Backend e c p))) = [Some c]"
  using assms
  by (auto simp: one_handle_def Backend_def Backend_new_def Backend_init_def Let_def
        length_Suc_conv split: option.splits)

lemma create_backend_one_handle:
  assumes "one_handle p"
  shows "one_handle (create_backend e c p) \<and> BACKEND (create_backend e c p) = Some 0
         \<and> length (objects (create_backend e c p)) = 1"
proof (cases "BACKEND p")
  case None
  obtain a p1 where b: "Backend e (case c of None \<Rightarrow> default_settings e | Some x \<Rightarrow> x) p = (a, p1)"
    by fastforce
  from Backend_one_handle [OF assms, of e "case c of None \<Rightarrow> default_settings e | Some x \<Rightarrow> x"] b
  have "a = 0" "one_handle p1" "length (objects p1) = 1" by simp_all
  then show ?thesis using None b
    by (auto simp: create_backend_def Let_def one_handle_def)
next
  case (Some a)
  then show ?thesis using assms by (auto simp: create_backend_def one_handle_def)
qed

lemma run_creates_one_handle:
  assumes "one_handle p"
  shows "(\<forall>h \<in> set (fst (run_creates e cs p)). h = 0)
         \<and> one_handle (snd (run_creates e cs p))
         \<and> (cs \<noteq> [] \<longrightarrow> length (objects (snd (run_creates e cs p))) = 1)"
  using assms
proof (induction cs arbitrary: p)
  case Nil
  then show ?case by simp
next
  case (Cons c cs)
  show ?case
  proof (cases c)
    case (CreateBackend x)
    define p1 where "p1 = create_backend e x p"
    from create_backend_one_handle [OF Cons.prems, of e x]
    have p1: "one_handle p1" "BACKEND p1 = Some 0" "length (objects p1) = 1"
      by (simp_all add: p1_def)
    from Cons.IH [OF p1(1)] p1 show ?thesis
      by (cases cs) (auto simp: CreateBackend p1_def [symmetric] Let_def split: prod.splits)
  next
    case (Construct x)
    obtain a p1 where b: "Backend e x p = (a, p1)" by fastforce
    from Backend_one_handle [OF Cons.prems, of e x] b
    have p1: "a = 0" "one_handle p1" "length (objects p1) = 1" by simp_all
    from Cons.IH [OF p1(2)] p1 show ?thesis
      by (cases cs) (auto simp: Construct b split: prod.splits)
  qed
qed

lemma create_backend_again: "BACKEND p \<noteq> None \<Longrightarrow> create_backend e c p = p"
  by (auto simp: create_backend_def)

lemma run_create_backends_again:
  "BACKEND p = Some a \<Longrightarrow>
     run_creates e (map CreateBackend cs) p = (replicate (length cs) a, p)"
  by (induction cs) (simp_all add: create_backend_again)


lemma create_backend_first:
  "BACKEND (create_backend e c (initial_process v)) = Some 0
   \<and> map (map_option charting_settings) (objects (create_backend e c (initial_process v)))
       = [Some (case c of None \<Rightarrow> default_settings e | Some x \<Rightarrow> x)]"
proof -
  obtain a p1 where b:
    "Backend e (case c of None \<Rightarrow> default_settings e | Some x \<Rightarrow> x) (initial_process v) = (a, p1)"
    by fastforce
  from Backend_one_handle [OF one_handle_initial,
         of e "case c of None \<Rightarrow> default_settings e | Some x \<Rightarrow> x" v] b
  have "a = 0"
    "map (map_option charting_settings) (objects p1)
       = [Some (case c of None \<Rightarrow> default_settings e | Some x \<Rightarrow> x)]"
    by simp_all
  then show ?thesis using b
    by (simp add: create_backend_def Let_def initial_process_def [where v = v, symmetric]
          del: map_map)
       (simp add: initial_process_def)
qed

text \<open>
  Claim C3, as the code has it. Whatever creation calls a process makes, in whatever
  order, every call yields the handle at the same address and the store never holds
  more than one \<^verbatim>\<open>Backend\<close> object. Once \<^verbatim>\<open>BACKEND\<close> is set, \<^verbatim>\<open>create_backend\<close> changes
  nothing, whatever settings it is given: after any number of \<^verbatim>\<open>create_backend\<close> calls
  the handle has the settings of the first.
\<close>

theorem single_handle:
  "(\<forall>h \<in> set (fst (run_creates e cs (initial_process v))). h = 0)
   \<and> length (objects (snd (run_creates e cs (initial_process v)))) \<le> 1
   \<and> (BACKEND p \<noteq> None \<longrightarrow> create_backend e c p = p)
   \<and> fst (run_creates e (CreateBackend c0 # map CreateBackend later) (initial_process v))
       = replicate (Suc (length later)) 0
   \<and> map (map_option charting_settings)
         (objects (snd (run_creates e (CreateBackend c0 # map CreateBackend later)
                          (initial_process v))))
       = [Some (case c0 of None \<Rightarrow> default_settings e | Some x \<Rightarrow> x)]"
proof -
  note r = run_creates_one_handle [OF one_handle_initial, of e cs v]
  have 1: "\<forall>h \<in> set (fst (run_creates e cs (initial_process v))). h = 0"
    using r by blast
  have 2: "length (objects (snd (run_creates e cs (initial_process v)))) \<le> 1"
  proof (cases cs)
    case Nil
    then show ?thesis by (simp add: initial_process_def)
  next
    case (Cons x xs)
    then show ?thesis using r by simp
  qed
  have 3: "BACKEND p \<noteq> None \<longrightarrow> create_backend e c p = p"
    by (simp add: create_backend_again)
  define p1 where "p1 = create_backend e c0 (initial_process v)"
  have b1: "BACKEND p1 = Some 0"
    and s1: "map (map_option charting_settings) (objects p1)
               = [Some (case c0 of None \<Rightarrow> default_settings e | Some x \<Rightarrow> x)]"
    using create_backend_first [of e c0 v] by (simp_all add: p1_def)
  have run: "run_creates e (CreateBackend c0 # map CreateBackend later) (initial_process v)
               = (0 # replicate (length later) 0, p1)"
    using run_create_backends_again [OF b1, of e later] b1
    by (simp add: p1_def [symmetric] Let_def)
  have 4: "fst (run_creates e (CreateBackend c0 # map CreateBackend later) (initial_process v))
       = replicate (Suc (length later)) 0"
    unfolding run by simp
  have 5: "map (map_option charting_settings)
         (objects (snd (run_creates e (CreateBackend c0 # map CreateBackend later)
                          (initial_process v))))
       = [Some (case c0 of None \<Rightarrow> default_settings e | Some x \<Rightarrow> x)]"
    by (simp only: run snd_conv s1)
  from 1 2 3 4 5 show ?thesis by blast
qed

lemmas create_defs = create_backend_def Backend_def Backend_new_def Backend_init_def
  initial_process_def Let_def version_ge_def version_lt_def strip_trailing_zeros_def
  example_env_def

text \<open>
  Three creation calls of both kinds yield the handle at address 0 three times, with one
  object in the store; three calls of \<^verbatim>\<open>create_backend\<close> leave the settings of the first.
\<close>

theorem single_handle_witness:
  "fst (run_creates example_env
          [CreateBackend None, Construct example_settings,
           CreateBackend (Some (example_settings\<lparr>chart_style := ''light''\<rparr>))]
          (initial_process (Some [0, 5, 12]))) = [0, 0, 0]
   \<and> length (objects (snd (run_creates example_env
          [CreateBackend None, Construct example_settings,
           CreateBackend (Some (example_settings\<lparr>chart_style := ''light''\<rparr>))]
          (initial_process (Some [0, 5, 12]))))) = 1
   \<and> map (map_option charting_settings)
         (objects (snd (run_creates example_env
            [CreateBackend (Some example_settings),
             CreateBackend (Some (example_settings\<lparr>chart_style := ''light''\<rparr>)),
             CreateBackend None]
            (initial_process (Some [0, 5, 12])))))
       = [Some example_settings]"
proof -
  have ev: "fst (run_creates example_env
          [CreateBackend None, Construct example_settings,
           CreateBackend (Some (example_settings\<lparr>chart_style := ''light''\<rparr>))]
          (initial_process (Some [0, 5, 12]))) = [0, 0, 0]"
    "length (objects (snd (run_creates example_env
          [CreateBackend None, Construct example_settings,
           CreateBackend (Some (example_settings\<lparr>chart_style := ''light''\<rparr>))]
          (initial_process (Some [0, 5, 12]))))) = 1"
    by (simp_all add: create_defs)
  from single_handle [of example_env
          "[CreateBackend None, Construct example_settings,
            CreateBackend (Some (example_settings\<lparr>chart_style := ''light''\<rparr>))]"
          "Some [0, 5, 12]" "initial_process None" None "Some example_settings"
          "[Some (example_settings\<lparr>chart_style := ''light''\<rparr>), None]"]
       ev
  show ?thesis by simp
qed

text \<open>
  The claim as stated fails for the constructor: called a second time it yields the same
  object, and \<^verbatim>\<open>__init__\<close> runs on it again with the settings of the second call.
\<close>

theorem constructor_settings_counterexample:
  "fst (run_creates example_env
          [Construct example_settings, Construct (example_settings\<lparr>chart_style := ''light''\<rparr>)]
          (initial_process (Some [0, 5, 12]))) = [0, 0]
   \<and> map (map_option charting_settings)
         (objects (snd (run_creates example_env
            [Construct example_settings, Construct (example_settings\<lparr>chart_style := ''light''\<rparr>)]
            (initial_process (Some [0, 5, 12])))))
       = [Some (example_settings\<lparr>chart_style := ''light''\<rparr>)]
   \<and> example_settings\<lparr>chart_style := ''light''\<rparr> \<noteq> example_settings"
  by (simp add: create_defs example_settings_def)

section \<open>Properties of the double-precision arithmetic\<close>








section \<open>Properties of the width of the table window\<close>





lemma columnwidth_of_skips: "columnwidth_of (xs @ NoSeries # ys) = columnwidth_of (xs @ ys)"
  by (induction xs rule: columnwidth_of.induct) auto









end
